theory Spec2Isabelle
  imports Main
begin

section \<open>JavaScript values that cross the bridge\<close>

text \<open>
  A bridge message is the result of \<^verbatim>\<open>JSON.parse(event.nativeEvent.data)\<close>: a JSON value.
  Numbers are the integral ones (HTTP status codes); \<open>None\<close> of \<open>jsval\<close> is JavaScript's
  \<^verbatim>\<open>undefined\<close>, which JSON text cannot carry but a missing property yields.
\<close>

datatype json =
    JNull
  | JBool bool
  | JNum int
  | JStr string
  | JArr "json list"
  | JObj "(string \<times> json) list"

type_synonym jsval = "json option"

text \<open>A JavaScript computation either throws or returns a value.\<close>

datatype 'a completion = Throws | Returns 'a

fun and_then :: "'a completion \<Rightarrow> ('a \<Rightarrow> 'b completion) \<Rightarrow> 'b completion" where
  "and_then Throws f = Throws"
| "and_then (Returns x) f = f x"

text \<open>Truthiness, as \<^verbatim>\<open>if (v)\<close>, \<^verbatim>\<open>!!v\<close> and \<^verbatim>\<open>v || w\<close> test it.\<close>

fun truthy :: "jsval \<Rightarrow> bool" where
  "truthy None = False"
| "truthy (Some JNull) = False"
| "truthy (Some (JBool b)) = b"
| "truthy (Some (JNum n)) = (n \<noteq> 0)"
| "truthy (Some (JStr s)) = (s \<noteq> [])"
| "truthy (Some (JArr xs)) = True"
| "truthy (Some (JObj kvs)) = True"

text \<open>
  Reading a property, \<^verbatim>\<open>v.k\<close> or \<^verbatim>\<open>const { k } = v\<close>: a TypeError on \<^verbatim>\<open>undefined\<close> and
  \<^verbatim>\<open>null\<close>, the own property of an object, and \<^verbatim>\<open>undefined\<close> on a boolean, number, string or
  array (the keys read by this program, \<^verbatim>\<open>type\<close>, \<^verbatim>\<open>payload\<close>, \<^verbatim>\<open>headers\<close>,
  \<^verbatim>\<open>Authorization\<close>, \<^verbatim>\<open>statusText\<close> and \<^verbatim>\<open>status\<close>, are no properties of those).
\<close>

fun property :: "jsval \<Rightarrow> string \<Rightarrow> jsval completion" where
  "property None k = Throws"
| "property (Some JNull) k = Throws"
| "property (Some (JObj kvs)) k = Returns (map_of kvs k)"
| "property (Some v) k = Returns None"

text \<open>Optional chaining, \<^verbatim>\<open>v?.k\<close>: \<^verbatim>\<open>undefined\<close> where \<^verbatim>\<open>v.k\<close> would throw.\<close>

fun optional_property :: "jsval \<Rightarrow> string \<Rightarrow> jsval" where
  "optional_property (Some (JObj kvs)) k = map_of kvs k"
| "optional_property v k = None"

text \<open>
  The operator \<^verbatim>\<open>k in v\<close>: a TypeError unless \<open>v\<close> is an object; an array has no key
  that is not an index or \<^verbatim>\<open>length\<close>.
\<close>

fun has_key :: "string \<Rightarrow> jsval \<Rightarrow> bool completion" where
  "has_key k (Some (JObj kvs)) = Returns (map_of kvs k \<noteq> None)"
| "has_key k (Some (JArr xs)) = Returns False"
| "has_key k v = Throws"

text \<open>
  A number as string conversion prints it: decimal, most significant digit first, with a
  minus sign when negative.
\<close>

definition digit :: "nat \<Rightarrow> char" where
  "digit d = ''0123456789'' ! d"

fun decimal :: "nat \<Rightarrow> string" where
  "decimal n = (if 10 \<le> n then decimal (n div 10) @ [digit (n mod 10)] else [digit n])"

definition number_to_string :: "int \<Rightarrow> string" where
  "number_to_string i = (if 0 \<le> i then decimal (nat i) else CHR ''-'' # decimal (nat (- i)))"

text \<open>
  \<^verbatim>\<open>Object.keys(v)\<close>: a TypeError on \<^verbatim>\<open>undefined\<close> and \<^verbatim>\<open>null\<close>, otherwise an array (of
  the own keys; the indices of a string or array; empty for a boolean or number).
\<close>

fun Object_keys :: "jsval \<Rightarrow> string list completion" where
  "Object_keys None = Throws"
| "Object_keys (Some JNull) = Throws"
| "Object_keys (Some (JObj kvs)) = Returns (map fst kvs)"
| "Object_keys (Some (JArr xs)) = Returns (map decimal [0..<length xs])"
| "Object_keys (Some (JStr s)) = Returns (map decimal [0..<length s])"
| "Object_keys (Some v) = Returns []"

text \<open>
  Strict equality \<^verbatim>\<open>===\<close> of a freshly parsed value with a held one: by value on
  primitives of the same type; a freshly parsed object or array is identical to nothing.
\<close>

fun strict_eq :: "json \<Rightarrow> json \<Rightarrow> bool" where
  "strict_eq JNull JNull = True"
| "strict_eq (JBool a) (JBool b) = (a = b)"
| "strict_eq (JNum a) (JNum b) = (a = b)"
| "strict_eq (JStr a) (JStr b) = (a = b)"
| "strict_eq v w = False"

text \<open>
  String conversion, as a template literal and the \<^verbatim>\<open>Error\<close> constructor apply it. An
  array prints its elements joined by commas, \<^verbatim>\<open>null\<close> elements as nothing.
\<close>

fun to_string :: "json \<Rightarrow> string" and join_elements :: "json list \<Rightarrow> string" where
  "to_string JNull = ''null''"
| "to_string (JBool b) = (if b then ''true'' else ''false'')"
| "to_string (JNum n) = number_to_string n"
| "to_string (JStr s) = s"
| "to_string (JArr xs) = join_elements xs"
| "to_string (JObj kvs) = ''[object Object]''"
| "join_elements [] = []"
| "join_elements [x] = (if x = JNull then [] else to_string x)"
| "join_elements (x # y # ys) =
     (if x = JNull then [] else to_string x) @ '','' @ join_elements (y # ys)"

fun template :: "jsval \<Rightarrow> string" where
  "template None = ''undefined''"
| "template (Some v) = to_string v"

declare decimal.simps [simp del]

section \<open>The bridge message router (\<^verbatim>\<open>onMessage\<close> of ModalWebView.tsx)\<close>

text \<open>
  Modelled from the spec: the class \<^verbatim>\<open>ChatGPTError\<close> of \<^verbatim>\<open>./types\<close> is not under src/;
  it is an error object with a human-readable message and the HTTP-like status code
  (\<^verbatim>\<open>undefined\<close> when none was assigned).
\<close>

record ChatGPTError =
  message :: string
  statusCode :: jsval

datatype status = Hidden | Animating | Visible

text \<open>What one run of the handler calls: the three props, and the retry routine.\<close>

datatype 'r call =
    OnAccessTokenChange json
  | OnPartialResponse 'r
  | OnStreamError ChatGPTError
  | ReloadAndCheckCapacityAgain

text \<open>
  Lines 114-125. \<^verbatim>\<open>Object.keys(payload)\<close> throws on a missing payload and is truthy
  otherwise (an array is); \<^verbatim>\<open>'Authorization' in headers\<close> throws on a truthy primitive.
\<close>

definition request_intercepted_config :: "json \<Rightarrow> jsval \<Rightarrow> 'r call list completion" where
  "request_intercepted_config accessToken payload =
     and_then (Object_keys payload) (\<lambda>keys.
     and_then (property payload ''headers'') (\<lambda>headers.
       if truthy headers then
         and_then (has_key ''Authorization'' headers) (\<lambda>present.
           if present then
             (case optional_property headers ''Authorization'' of
                None \<Rightarrow> Returns []
              | Some newAuthToken \<Rightarrow>
                  if truthy (Some newAuthToken) \<and> \<not> strict_eq newAuthToken accessToken
                  then Returns [OnAccessTokenChange newAuthToken]
                  else Returns [])
           else Returns [])
       else Returns []))"

text \<open>
  Lines 126-131. \<^verbatim>\<open>parseStreamBasedResponse\<close> of \<^verbatim>\<open>./utils\<close> is not under src/: it is a
  parameter. Nothing in the source says that it is pure, so it takes and returns the state
  \<open>u\<close> that its module may keep between calls. A call throws, returns a falsy result
  (\<open>None\<close>, as \<^verbatim>\<open>null\<close>) or returns a response, which is truthy; \<^verbatim>\<open>if (result)\<close> tests that.
\<close>

definition raw_partial_response ::
  "('u \<Rightarrow> jsval \<Rightarrow> 'r option completion \<times> 'u) \<Rightarrow> 'u \<Rightarrow> jsval
     \<Rightarrow> 'r call list completion \<times> 'u" where
  "raw_partial_response parseStreamBasedResponse u payload =
     (case parseStreamBasedResponse u payload of
        (Throws, u') \<Rightarrow> (Throws, u')
      | (Returns None, u') \<Rightarrow> (Returns [], u')
      | (Returns (Some result), u') \<Rightarrow> (Returns [OnPartialResponse result], u'))"

text \<open>Lines 136-143.\<close>

definition stream_error :: "jsval \<Rightarrow> 'r call list" where
  "stream_error payload =
     [OnStreamError
        \<lparr> message =
            (if truthy (optional_property payload ''statusText'')
             then template (optional_property payload ''statusText'')
             else ''ChatGPTResponseStreamError: '' @ template (optional_property payload ''status'')),
          statusCode = optional_property payload ''status'' \<rparr>]"

text \<open>
  The body of the \<^verbatim>\<open>try\<close> block, with the parser's state. The destructuring of the
  parsed message comes first; the four \<^verbatim>\<open>if\<close>s run in sequence, and \<open>type\<close> equals at most
  one of the four tags, so a statement that throws has no call before it.
\<close>

definition onMessage_try ::
  "('u \<Rightarrow> jsval \<Rightarrow> 'r option completion \<times> 'u) \<Rightarrow> 'u \<Rightarrow> json \<Rightarrow> status
     \<Rightarrow> json completion \<Rightarrow> 'r call list completion \<times> 'u" where
  "onMessage_try parseStreamBasedResponse u accessToken st data =
     (case and_then data (\<lambda>v.
           and_then (property (Some v) ''payload'') (\<lambda>payload.
           and_then (property (Some v) ''type'') (\<lambda>type. Returns (payload, type)))) of
        Throws \<Rightarrow> (Throws, u)
      | Returns (payload, type) \<Rightarrow>
          (case (if type = Some (JStr ''REQUEST_INTERCEPTED_CONFIG'')
                 then request_intercepted_config accessToken payload else Returns []) of
             Throws \<Rightarrow> (Throws, u)
           | Returns c1 \<Rightarrow>
               (case (if type = Some (JStr ''RAW_PARTIAL_RESPONSE'')
                      then raw_partial_response parseStreamBasedResponse u payload
                      else (Returns [], u)) of
                  (Throws, u') \<Rightarrow> (Throws, u')
                | (Returns c2, u') \<Rightarrow>
                    (Returns
                       (c1 @ c2 @
                        (if type = Some (JStr ''GPT3_FULL_CAPACITY'') \<and> st = Visible
                         then [ReloadAndCheckCapacityAgain] else []) @
                        (if type = Some (JStr ''STREAM_ERROR'')
                         then stream_error payload else [])),
                     u'))))"

text \<open>
  The handler: \<open>data\<close> is the completion of \<^verbatim>\<open>JSON.parse(event.nativeEvent.data)\<close>
  (\<open>Throws\<close> on text that is no JSON); the \<^verbatim>\<open>catch\<close> block ignores whatever was thrown.
\<close>

definition onMessage ::
  "('u \<Rightarrow> jsval \<Rightarrow> 'r option completion \<times> 'u) \<Rightarrow> 'u \<Rightarrow> json \<Rightarrow> status
     \<Rightarrow> json completion \<Rightarrow> 'r call list completion \<times> 'u" where
  "onMessage parseStreamBasedResponse u accessToken st data =
     (case onMessage_try parseStreamBasedResponse u accessToken st data of
        (Throws, u') \<Rightarrow> (Returns [], u')
      | (Returns calls, u') \<Rightarrow> (Returns calls, u'))"

section \<open>The injected program (\<^verbatim>\<open>injectJavaScriptIntoWebViewBeforeIsLoaded\<close> of api/index.ts)\<close>

text \<open>
  The messages are the objects handed to \<^verbatim>\<open>JSON.stringify\<close>; the router receives
  \<^verbatim>\<open>JSON.parse\<close> of that text, which is the same JSON value.
\<close>

definition received :: "json \<Rightarrow> json completion" where
  "received m = Returns m"

text \<open>
  The patched \<^verbatim>\<open>window.fetch\<close> posts the request's configuration before the request
  goes out; \<^verbatim>\<open>JSON.stringify\<close> leaves out a \<^verbatim>\<open>payload\<close> that is \<^verbatim>\<open>undefined\<close>.
\<close>

definition intercepted_message :: "jsval \<Rightarrow> json" where
  "intercepted_message config =
     JObj ((''type'', JStr ''REQUEST_INTERCEPTED_CONFIG'') #
           (case config of None \<Rightarrow> [] | Some c \<Rightarrow> [(''payload'', c)]))"

text \<open>\<^verbatim>\<open>HOST_URL\<close> and \<^verbatim>\<open>CHAT_PAGE\<close> of \<^verbatim>\<open>../constants\<close> are parameters.\<close>

definition getHeaders :: "string \<Rightarrow> string \<Rightarrow> string \<Rightarrow> json" where
  "getHeaders HOST_URL CHAT_PAGE accessToken =
     JObj [(''accept'', JStr ''text/event-stream''),
           (''x-openai-assistant-app-id'', JStr []),
           (''authorization'', JStr accessToken),
           (''content-type'', JStr ''application/json''),
           (''origin'', JStr HOST_URL),
           (''referrer'', JStr CHAT_PAGE),
           (''sec-fetch-mode'', JStr ''cors''),
           (''sec-fetch-site'', JStr ''same-origin''),
           (''x-requested-with'', JStr ''com.chatgpt3auth'')]"

definition prompt_body :: "string \<Rightarrow> string \<Rightarrow> string \<Rightarrow> json" where
  "prompt_body prompt messageId conversationId =
     JObj [(''action'', JStr ''next''),
           (''messages'',
              JArr [JObj [(''id'', JStr conversationId),
                          (''role'', JStr ''user''),
                          (''content'',
                             JObj [(''content_type'', JStr ''text''),
                                   (''parts'', JArr [JStr prompt])])]]),
           (''model'', JStr ''text-davinci-002-render''),
           (''parent_message_id'', JStr messageId)]"

text \<open>
  What \<^verbatim>\<open>await fetch(...)\<close> gives: a rejection, or a response with its status, its status
  text and the decoded chunks its body yields before it ends or a read fails (a failed
  read is caught, and nothing is posted after it).
\<close>

datatype fetch_outcome = Rejected | Response nat string "string list"

definition stream_error_message :: "nat \<Rightarrow> string \<Rightarrow> json" where
  "stream_error_message st statusText =
     JObj [(''type'', JStr ''STREAM_ERROR''),
           (''payload'', JObj [(''status'', JNum (int st)), (''message'', JStr statusText)])]"

definition raw_partial_response_message :: "string \<Rightarrow> json" where
  "raw_partial_response_message str =
     JObj [(''type'', JStr ''RAW_PARTIAL_RESPONSE''), (''payload'', JStr str)]"

text \<open>
  \<^verbatim>\<open>window.sendGptMessage\<close>: the bridge messages it posts, in order. \<^verbatim>\<open>JSON.stringify\<close>
  of the request body is a parameter; \<open>prompt\<close> is the source's \<^verbatim>\<open>message\<close>.
\<close>

definition sendGptMessage ::
  "(json \<Rightarrow> string) \<Rightarrow> string \<Rightarrow> string \<Rightarrow> string \<Rightarrow> string \<Rightarrow> string \<Rightarrow> string
     \<Rightarrow> fetch_outcome \<Rightarrow> json list" where
  "sendGptMessage stringify HOST_URL CHAT_PAGE accessToken prompt messageId conversationId res =
     intercepted_message
       (Some (JObj [(''method'', JStr ''POST''),
                    (''body'', JStr (stringify (prompt_body prompt messageId conversationId))),
                    (''headers'', getHeaders HOST_URL CHAT_PAGE accessToken),
                    (''mode'', JStr ''cors''),
                    (''credentials'', JStr ''include'')])) #
     (case res of
        Rejected \<Rightarrow> []
      | Response st statusText chunks \<Rightarrow>
          if 400 \<le> st \<and> st < 600 then [stream_error_message st statusText]
          else map raw_partial_response_message chunks)"

definition message_type :: "json \<Rightarrow> jsval" where
  "message_type m = optional_property (Some m) ''type''"

section \<open>The non-streaming call (\<^verbatim>\<open>postMessage\<close> of api/index.ts)\<close>

text \<open>
  What the returned promise rejects with: a \<^verbatim>\<open>ChatGptError\<close> built here, or whatever
  \<^verbatim>\<open>parseStreamedGptResponse\<close> (not under src/, a parameter) threw. A falsy result of the
  parser is \<open>None\<close>; \<^verbatim>\<open>if (!parsedData)\<close> tests that.
\<close>

datatype thrown = Error ChatGPTError | ParserException

definition postMessage ::
  "(string \<Rightarrow> 'r option completion) \<Rightarrow> nat \<Rightarrow> string \<Rightarrow> string \<Rightarrow> thrown + 'r" where
  "postMessage parseStreamedGptResponse st statusText rawText =
     (if 400 \<le> st \<and> st < 500 then
        Inl (Error
          \<lparr> message =
              (if st = 403 \<or> st = 401
               then ''ChatGPTResponseClientError: Your access token may have expired. Please login again.''
               else ''ChatGPTResponseClientError: '' @ decimal st @ '' '' @ statusText),
            statusCode = Some (JNum (int st)) \<rparr>)
      else if 500 \<le> st then
        Inl (Error
          \<lparr> message = ''ChatGPTResponseServerError: '' @ decimal st @ '' '' @ statusText,
            statusCode = Some (JNum (int st)) \<rparr>)
      else
        (case parseStreamedGptResponse rawText of
           Throws \<Rightarrow> Inl ParserException
         | Returns None \<Rightarrow>
             Inl (Error \<lparr> message = ''ChatGPTResponseError: Unable to parse response'',
                          statusCode = None \<rparr>)
         | Returns (Some parsedData) \<Rightarrow> Inr parsedData))"

section \<open>The modal component: visibility, animation and the capacity retry\<close>

datatype mode = Hide | Show

text \<open>
  \<^verbatim>\<open>reloadAndCheckCapacityAgain\<close> is an async function with two timed waits (\<^verbatim>\<open>wait\<close> of
  \<^verbatim>\<open>./utils\<close>). A cycle that was started is suspended at the first one,
  \<^verbatim>\<open>await wait(2000)\<close>, or at the second one, \<^verbatim>\<open>await wait(3000)\<close>, or it has run to its end.
\<close>

datatype retry = WaitingToReload | WaitingToCheck | Finished

text \<open>
  What the component does that is seen from outside: it calls a prop of the host, it
  reloads the web view, or it injects the capacity probe.
\<close>

datatype 'r action =
    Calls "'r call"
  | Reload
  | CheckIfChatGPTIsAtFullCapacity

text \<open>
  The state: the \<open>accessToken\<close> prop (the host passes \<^verbatim>\<open>setAccessToken\<close> as
  \<^verbatim>\<open>onAccessTokenChange\<close>), the \<open>status\<close> of \<^verbatim>\<open>useState\<close>, the animation that runs on the
  animated value (at most one), every retry cycle that was started, the state of the
  parser's module, and every action so far with the status at the moment it was done.
  Events are handled one after the other, each on the props and state the previous one
  left, and the state updates of one event are rendered together. The reload on the app
  coming to the foreground (the effect on \<^verbatim>\<open>currentAppState\<close>) belongs to no event here.
\<close>

record ('u, 'r) modal =
  accessToken :: json
  status :: status
  animation :: "mode option"
  retries :: "retry list"
  parser_state :: 'u
  trace :: "(status \<times> 'r action) list"

definition does :: "'r action \<Rightarrow> ('u, 'r) modal \<Rightarrow> ('u, 'r) modal" where
  "does a s = s\<lparr>trace := trace s @ [(status s, a)]\<rparr>"

text \<open>
  \<^verbatim>\<open>animateWebView\<close> of hooks.ts. \<^verbatim>\<open>onAnimationStart\<close> sets the status to animating. Then
  \<^verbatim>\<open>Animated.timing(...).start(...)\<close> starts the animation on the one animated value: an
  animation that is still running on that value is stopped, and the library calls the end
  callback of the stopped animation at once (with \<^verbatim>\<open>finished: false\<close>). The callback of
  hooks.ts does not look at \<^verbatim>\<open>finished\<close>: it calls \<^verbatim>\<open>onAnimationEnd\<close> with the mode of the
  stopped animation, which sets the status to visible or hidden. The end callback of the
  new animation comes later, as the event \<open>AnimationEnd\<close>.
\<close>

definition animateWebView :: "mode \<Rightarrow> ('u, 'r) modal \<Rightarrow> ('u, 'r) modal" where
  "animateWebView m s =
     (let started = s\<lparr>status := Animating\<rparr>;
          stopped =
            (case animation s of
               None \<Rightarrow> started
             | Some running \<Rightarrow>
                 started\<lparr>status := (if running = Show then Visible else Hidden)\<rparr>)
      in stopped\<lparr>animation := Some m\<rparr>)"

definition "open" :: "('u, 'r) modal \<Rightarrow> ('u, 'r) modal" where
  "open s = animateWebView Show s"

text \<open>
  The end callback of the running animation: \<^verbatim>\<open>onAnimationEnd\<close> sets the status by the
  mode.
\<close>

definition onAnimationEnd :: "mode \<Rightarrow> ('u, 'r) modal \<Rightarrow> ('u, 'r) modal" where
  "onAnimationEnd m s = s\<lparr>status := (if m = Show then Visible else Hidden)\<rparr>"

text \<open>
  The effect on \<^verbatim>\<open>[status]\<close>, run after the render that follows an event: the page is
  probed when the status has become visible. \<open>s\<close> is the state before the event.
\<close>

definition rendered :: "('u, 'r) modal \<Rightarrow> ('u, 'r) modal \<Rightarrow> ('u, 'r) modal" where
  "rendered s s' =
     (if status s' = Visible \<and> status s \<noteq> Visible
      then does CheckIfChatGPTIsAtFullCapacity s' else s')"

text \<open>One call of the handler, carried out on the state.\<close>

fun perform :: "('u, 'r) modal \<Rightarrow> 'r call \<Rightarrow> ('u, 'r) modal" where
  "perform s (OnAccessTokenChange newAccessToken) =
     (does (Calls (OnAccessTokenChange newAccessToken)) s)\<lparr>accessToken := newAccessToken\<rparr>"
| "perform s ReloadAndCheckCapacityAgain = s\<lparr>retries := retries s @ [WaitingToReload]\<rparr>"
| "perform s c = does (Calls c) s"

datatype event =
    Open
  | ClosePressed
  | NavigationStateChange string bool
  | AnimationEnd
  | Message "json completion"
  | WaitElapsed nat

text \<open>
  One event of the component. \<open>AnimationEnd\<close> is the end of the running animation;
  \<open>WaitElapsed i\<close> resumes the \<open>i\<close>-th retry cycle after the wait it is suspended at: the
  first wait is followed by the reload, the second one by the probe. The waits last 2000
  and 3000 milliseconds and an animation 850; the events carry no time, so a run of events
  stands for any timing of them.
\<close>

fun step ::
  "('u \<Rightarrow> jsval \<Rightarrow> 'r option completion \<times> 'u) \<Rightarrow> string \<Rightarrow> ('u, 'r) modal \<Rightarrow> event
     \<Rightarrow> ('u, 'r) modal" where
  "step parseStreamBasedResponse CHAT_PAGE s Open = rendered s (open s)"
| "step parseStreamBasedResponse CHAT_PAGE s ClosePressed = rendered s (animateWebView Hide s)"
| "step parseStreamBasedResponse CHAT_PAGE s (NavigationStateChange url loading) =
     (if take (length CHAT_PAGE) url = CHAT_PAGE \<and> loading \<and> status s = Visible
      then rendered s (animateWebView Hide s) else s)"
| "step parseStreamBasedResponse CHAT_PAGE s AnimationEnd =
     (case animation s of
        None \<Rightarrow> s
      | Some m \<Rightarrow> rendered s (onAnimationEnd m (s\<lparr>animation := None\<rparr>)))"
| "step parseStreamBasedResponse CHAT_PAGE s (Message data) =
     (case onMessage parseStreamBasedResponse (parser_state s) (accessToken s) (status s) data of
        (Throws, u') \<Rightarrow> s\<lparr>parser_state := u'\<rparr>
      | (Returns calls, u') \<Rightarrow> foldl perform (s\<lparr>parser_state := u'\<rparr>) calls)"
| "step parseStreamBasedResponse CHAT_PAGE s (WaitElapsed i) =
     (if i < length (retries s) then
        (case retries s ! i of
           WaitingToReload \<Rightarrow> (does Reload s)\<lparr>retries := (retries s)[i := WaitingToCheck]\<rparr>
         | WaitingToCheck \<Rightarrow>
             (does CheckIfChatGPTIsAtFullCapacity s)\<lparr>retries := (retries s)[i := Finished]\<rparr>
         | Finished \<Rightarrow> s)
      else s)"

definition run ::
  "('u \<Rightarrow> jsval \<Rightarrow> 'r option completion \<times> 'u) \<Rightarrow> string \<Rightarrow> ('u, 'r) modal \<Rightarrow> event list
     \<Rightarrow> ('u, 'r) modal" where
  "run parseStreamBasedResponse CHAT_PAGE s events =
     foldl (step parseStreamBasedResponse CHAT_PAGE) s events"

text \<open>
  The component as mounted: hidden, holding the token the host holds, with the parser's
  module in its initial state.
\<close>

definition mounted :: "json \<Rightarrow> 'u \<Rightarrow> ('u, 'r) modal" where
  "mounted token u =
     \<lparr> accessToken = token, status = Hidden, animation = None, retries = [],
       parser_state = u, trace = [] \<rparr>"

section \<open>The stream parser, from the specification\<close>

text \<open>
  Modelled from the spec: the type \<^verbatim>\<open>ChatGpt3Response\<close> of \<^verbatim>\<open>./types\<close> is not under src/.
  The specification's ChatResponse is the message text (possibly partial), the message
  and conversation identifiers, and a completion flag.
\<close>

record ChatResponse =
  content :: string
  message_id :: string
  conversation_id :: string
  isDone :: bool

text \<open>
  Modelled from the spec: the StreamAccumulator of one prompt holds the growing raw text
  buffer and the last successfully parsed response snapshot, and tracks the highest record
  boundary already emitted. A new accumulator on each new stream call belongs to the host's
  \<^verbatim>\<open>sendMessage\<close>, which is no event of the component modelled here.
\<close>

record StreamAccumulator =
  buffer :: string
  emitted :: nat
  snapshot :: "ChatResponse option"

definition new_accumulator :: StreamAccumulator where
  "new_accumulator = \<lparr> buffer = [], emitted = 0, snapshot = None \<rparr>"

text \<open>
  Modelled from the spec: the operation \<^verbatim>\<open>ingest(text) -> ChatResponse | null\<close> of the Stream
  Parser/Accumulator (section 4.3), the specification of \<^verbatim>\<open>parseStreamBasedResponse\<close>, which
  is not under src/. Each call appends the text to the accumulator's buffer and then parses
  the cumulative buffer as the backend's chunked format. That format is given only
  conceptually (newline-delimited, possibly \<^verbatim>\<open>data:\<close>-prefixed JSON records, later records
  superseding earlier ones, a terminal sentinel), so it is the parameter \<open>format\<close>: for a
  cumulative buffer it gives nothing when the buffer holds no complete record, and
  otherwise the boundary of the latest complete record and the response snapshot that this
  record gives, with the completion flag set when it is the terminal sentinel. A buffer with
  no complete record, or with none newer than the boundary already emitted, gives \<^verbatim>\<open>null\<close>,
  and the bytes are retained. A complete, newer record gives the latest snapshot; when it
  is the terminal one, the accumulator is discarded.
\<close>

definition ingest ::
  "(string \<Rightarrow> (nat \<times> ChatResponse) option) \<Rightarrow> string \<Rightarrow> StreamAccumulator
     \<Rightarrow> ChatResponse option \<times> StreamAccumulator" where
  "ingest format chunk acc =
     (let cumulative = buffer acc @ chunk in
      case format cumulative of
        None \<Rightarrow> (None, acc\<lparr>buffer := cumulative\<rparr>)
      | Some (boundary, response) \<Rightarrow>
          if boundary \<le> emitted acc then (None, acc\<lparr>buffer := cumulative\<rparr>)
          else if isDone response then (Some response, new_accumulator)
          else (Some response,
                \<lparr> buffer = cumulative, emitted = boundary, snapshot = Some response \<rparr>))"

text \<open>
  Modelled from the spec: \<^verbatim>\<open>parseStreamBasedResponse\<close> of \<^verbatim>\<open>./utils\<close>, which is not under
  src/, as the handler calls it: with the payload of one chunk, on the accumulator that the
  module keeps. The specification gives \<open>ingest\<close> for a text; a payload that is no text
  throws, which the handler's \<^verbatim>\<open>catch\<close> recovers, and leaves the accumulator as it was.
\<close>

definition stream_engine ::
  "(string \<Rightarrow> (nat \<times> ChatResponse) option) \<Rightarrow> StreamAccumulator \<Rightarrow> jsval
     \<Rightarrow> ChatResponse option completion \<times> StreamAccumulator" where
  "stream_engine format acc payload =
     (case payload of
        Some (JStr chunk) \<Rightarrow>
          (case ingest format chunk acc of (response, acc') \<Rightarrow> (Returns response, acc'))
      | _ \<Rightarrow> (Throws, acc))"

text \<open>
  An instance of the parameter \<^verbatim>\<open>parseStreamedGptResponse\<close> of the non-streaming call, for the
  concrete runs below: the whole text of a response body, parsed in a format.
\<close>

definition whole_text ::
  "(string \<Rightarrow> (nat \<times> ChatResponse) option) \<Rightarrow> string \<Rightarrow> ChatResponse option completion" where
  "whole_text format rawText = Returns (map_option snd (format rawText))"

text \<open>
  An instance of the parameter \<open>format\<close> for the concrete runs below; the theorems hold for
  every format. Here a buffer that ends in a newline is one complete record, whose text is
  the message text, and a buffer that ends elsewhere ends mid-record.
\<close>

definition line_format :: "string \<Rightarrow> (nat \<times> ChatResponse) option" where
  "line_format buf =
     (if buf \<noteq> [] \<and> last buf = CHR 0x0A
      then Some (length buf,
                 \<lparr> content = butlast buf, message_id = [], conversation_id = [],
                   isDone = False \<rparr>)
      else None)"

section \<open>Auxiliary definitions for the statements\<close>

definition messages_of_type :: "string \<Rightarrow> json list \<Rightarrow> json list" where
  "messages_of_type t ms = filter (\<lambda>m. message_type m = Some (JStr t)) ms"

text \<open>The authorization value a bridge message shows under the key the handler reads.\<close>

definition authorization :: "json \<Rightarrow> jsval" where
  "authorization m =
     optional_property
       (optional_property (optional_property (Some m) ''payload'') ''headers'')
       ''Authorization''"

definition request_headers :: "json \<Rightarrow> jsval" where
  "request_headers m = optional_property (optional_property (Some m) ''payload'') ''headers''"

text \<open>The events of bridge messages arriving in order.\<close>

definition deliver :: "json list \<Rightarrow> event list" where
  "deliver ms = map (\<lambda>m. Message (received m)) ms"


text \<open>The token-change callbacks in a trace, in order.\<close>

definition token_changes :: "(status \<times> 'r action) list \<Rightarrow> json list" where
  "token_changes tr =
     concat (map (\<lambda>(st, a). case a of Calls (OnAccessTokenChange t) \<Rightarrow> [t] | _ \<Rightarrow> []) tr)"

section \<open>Lemmas on the router\<close>

lemmas router_defs =
  onMessage_def onMessage_try_def request_intercepted_config_def raw_partial_response_def
  stream_error_def received_def

lemma strict_eq_JStr: "strict_eq (JStr a) tok = (tok = JStr a)"
  by (cases tok) auto

lemma message_type_object:
  assumes "message_type m = Some t"
  obtains kvs where "m = JObj kvs" and "map_of kvs ''type'' = Some t"
  using assms by (cases m) (auto simp: message_type_def)

lemma request_headers_object:
  assumes "request_headers m = Some h"
  obtains kvs cfg where "m = JObj kvs" and "map_of kvs ''payload'' = Some (JObj cfg)"
    and "map_of cfg ''headers'' = Some h"
proof -
  from assms obtain kvs where m: "m = JObj kvs"
    by (cases m) (auto simp: request_headers_def)
  with assms obtain p where p: "map_of kvs ''payload'' = Some p"
    by (cases "map_of kvs ''payload''") (auto simp: request_headers_def)
  with assms m obtain cfg where "p = JObj cfg"
    by (cases p) (auto simp: request_headers_def)
  with assms m p show ?thesis
    by (intro that [of kvs cfg]) (auto simp: request_headers_def)
qed

lemma onMessage_intercepted:
  assumes "message_type m = Some (JStr ''REQUEST_INTERCEPTED_CONFIG'')"
    and "request_headers m = Some (JObj hs)"
  shows "onMessage parse u tok st (received m) =
     (Returns (case map_of hs ''Authorization'' of
                 None \<Rightarrow> []
               | Some t \<Rightarrow> if truthy (Some t) \<and> \<not> strict_eq t tok
                           then [OnAccessTokenChange t] else []), u)"
proof -
  from assms(1) obtain kvs where m: "m = JObj kvs"
    and ty: "map_of kvs ''type'' = Some (JStr ''REQUEST_INTERCEPTED_CONFIG'')"
    by (rule message_type_object)
  from assms(2) m obtain cfg where p: "map_of kvs ''payload'' = Some (JObj cfg)"
    and h: "map_of cfg ''headers'' = Some (JObj hs)"
    by (auto elim: request_headers_object)
  show ?thesis
    by (cases "map_of hs ''Authorization''") (simp_all add: router_defs m ty p h)
qed

lemma onMessage_raw:
  assumes "message_type m = Some (JStr ''RAW_PARTIAL_RESPONSE'')"
  shows "onMessage parse u tok st (received m) =
     (case parse u (optional_property (Some m) ''payload'') of
        (Returns (Some r), u') \<Rightarrow> (Returns [OnPartialResponse r], u')
      | (Returns None, u') \<Rightarrow> (Returns [], u')
      | (Throws, u') \<Rightarrow> (Returns [], u'))"
proof -
  from assms obtain kvs where m: "m = JObj kvs"
    and ty: "map_of kvs ''type'' = Some (JStr ''RAW_PARTIAL_RESPONSE'')"
    by (rule message_type_object)
  show ?thesis
    by (simp add: router_defs m ty split: prod.splits completion.splits option.splits)
qed

lemma onMessage_stream_error:
  assumes "message_type m = Some (JStr ''STREAM_ERROR'')"
  shows "onMessage parse u tok st (received m) =
     (Returns (stream_error (optional_property (Some m) ''payload'')), u)"
proof -
  from assms obtain kvs where m: "m = JObj kvs"
    and ty: "map_of kvs ''type'' = Some (JStr ''STREAM_ERROR'')"
    by (rule message_type_object)
  show ?thesis
    by (simp add: onMessage_def onMessage_try_def received_def m ty)
qed


lemma onMessage_returns:
  "\<exists>calls u'. onMessage parse u tok st data = (Returns calls, u')"
  by (cases "onMessage_try parse u tok st data"; cases "fst (onMessage_try parse u tok st data)")
     (auto simp: onMessage_def)

lemma number_to_string_nat: "number_to_string (int n) = decimal n"
  by (simp add: number_to_string_def)

lemma authorization_headers:
  assumes "authorization m = Some t"
  obtains hs where "request_headers m = Some (JObj hs)" and "map_of hs ''Authorization'' = Some t"
proof (cases "request_headers m")
  case None
  with assms show ?thesis by (simp add: authorization_def request_headers_def)
next
  case (Some h)
  with assms show ?thesis
    by (cases h) (auto simp: authorization_def request_headers_def intro: that)
qed

lemma step_intercepted_token:
  assumes "message_type m = Some (JStr ''REQUEST_INTERCEPTED_CONFIG'')"
    and "authorization m = Some (JStr a)"
  shows "step parse CHAT_PAGE s (Message (received m)) =
     (if a \<noteq> [] \<and> accessToken s \<noteq> JStr a
      then (does (Calls (OnAccessTokenChange (JStr a))) s)\<lparr>accessToken := JStr a\<rparr>
      else s)"
proof -
  from assms(2) obtain hs where "request_headers m = Some (JObj hs)"
    and "map_of hs ''Authorization'' = Some (JStr a)"
    by (rule authorization_headers)
  with onMessage_intercepted [OF assms(1), of hs parse "parser_state s" "accessToken s" "status s"]
  show ?thesis by (simp add: strict_eq_JStr does_def)
qed

lemma token_changes_append:
  "token_changes (tr @ tr') = token_changes tr @ token_changes tr'"
  by (simp add: token_changes_def)

lemma token_changes_single:
  "token_changes [(st, a)] = (case a of Calls (OnAccessTokenChange t) \<Rightarrow> [t] | _ \<Rightarrow> [])"
  by (simp add: token_changes_def)

lemma step_raw_keeps_token:
  "accessToken (step parse CHAT_PAGE s (Message (received (raw_partial_response_message str))))
     = accessToken s
   \<and> token_changes (trace (step parse CHAT_PAGE s
        (Message (received (raw_partial_response_message str)))))
     = token_changes (trace s)"
proof -
  have "message_type (raw_partial_response_message str) = Some (JStr ''RAW_PARTIAL_RESPONSE'')"
    by (simp add: message_type_def raw_partial_response_message_def)
  from onMessage_raw [OF this, of parse "parser_state s" "accessToken s" "status s"]
  show ?thesis
    by (simp add: does_def token_changes_append token_changes_single
        split: prod.splits completion.splits option.splits)
qed

lemma run_Cons: "run parse CHAT_PAGE s (e # es) = run parse CHAT_PAGE (step parse CHAT_PAGE s e) es"
  by (simp add: run_def)

lemma run_Nil: "run parse CHAT_PAGE s [] = s"
  by (simp add: run_def)

lemma deliver_Cons: "deliver (m # ms) = Message (received m) # deliver ms"
  by (simp add: deliver_def)

lemma deliver_Nil: "deliver [] = []"
  by (simp add: deliver_def)

lemma run_raw_keeps_token:
  "accessToken (run parse CHAT_PAGE s (deliver (map raw_partial_response_message chunks)))
     = accessToken s
   \<and> token_changes (trace (run parse CHAT_PAGE s
        (deliver (map raw_partial_response_message chunks))))
     = token_changes (trace s)"
proof (induction chunks arbitrary: s)
  case Nil
  show ?case by (simp add: run_Nil deliver_Nil)
next
  case (Cons c chunks)
  from Cons.IH [of "step parse CHAT_PAGE s (Message (received (raw_partial_response_message c)))"]
    step_raw_keeps_token [of parse CHAT_PAGE s c]
  show ?case by (simp add: run_Cons deliver_Cons del: step.simps)
qed

lemma step_stream_error_keeps_token:
  "accessToken (step parse CHAT_PAGE s (Message (received (stream_error_message n statusText))))
     = accessToken s
   \<and> token_changes (trace (step parse CHAT_PAGE s
        (Message (received (stream_error_message n statusText)))))
     = token_changes (trace s)"
proof -
  have "message_type (stream_error_message n statusText) = Some (JStr ''STREAM_ERROR'')"
    by (simp add: message_type_def stream_error_message_def)
  from onMessage_stream_error [OF this, of parse "parser_state s" "accessToken s" "status s"]
  show ?thesis
    by (simp add: stream_error_def does_def token_changes_append token_changes_single)
qed

lemma onMessage_stream_error_message:
  "onMessage parse u tok st (received (stream_error_message n statusText))
     = (Returns [OnStreamError \<lparr> message = ''ChatGPTResponseStreamError: '' @ decimal n,
                                  statusCode = Some (JNum (int n)) \<rparr>], u)"
proof -
  have "message_type (stream_error_message n statusText) = Some (JStr ''STREAM_ERROR'')"
    by (simp add: message_type_def stream_error_message_def)
  from onMessage_stream_error [OF this, of parse u tok st]
  show ?thesis
    by (simp add: stream_error_def stream_error_message_def number_to_string_nat)
qed

lemma step_sendGptMessage_request:
  "step parse CHAT_PAGE' s (Message (received (intercepted_message
       (Some (JObj [(''method'', JStr ''POST''),
                    (''body'', JStr body),
                    (''headers'', getHeaders HOST_URL CHAT_PAGE token),
                    (''mode'', JStr ''cors''),
                    (''credentials'', JStr ''include'')]))))) = s"
  by (simp add: router_defs intercepted_message_def getHeaders_def)

lemma and_then_Returns:
  "(and_then c f = Returns y) = (\<exists>x. c = Returns x \<and> f x = Returns y)"
  by (cases c) auto

lemma request_intercepted_config_change:
  assumes "request_intercepted_config tok payload = Returns calls"
    and "OnAccessTokenChange t \<in> set calls"
  shows "truthy (Some t) \<and> \<not> strict_eq t tok"
  using assms
  by (auto simp: request_intercepted_config_def and_then_Returns
      split: if_splits option.splits)

lemma raw_partial_response_calls:
  assumes "raw_partial_response parse u payload = (Returns calls, u')"
  shows "calls = [] \<or> (\<exists>r. calls = [OnPartialResponse r])"
  using assms
  by (auto simp: raw_partial_response_def split: prod.splits completion.splits option.splits)

lemma branches_return:
  assumes "(case A of
              Throws \<Rightarrow> (Throws, u)
            | Returns c1 \<Rightarrow>
                (case B of
                   (Throws, u') \<Rightarrow> (Throws, u')
                 | (Returns c2, u') \<Rightarrow> (Returns (f c1 c2), u'))) = (Returns calls, w)"
  obtains c1 c2 where "A = Returns c1" and "B = (Returns c2, w)" and "calls = f c1 c2"
proof (cases A)
  case Throws
  with assms show ?thesis by simp
next
  case (Returns c1)
  obtain b w' where B: "B = (b, w')" by (cases B)
  show ?thesis
  proof (cases b)
    case Throws
    with assms Returns B show ?thesis by simp
  next
    case b: (Returns c2)
    with assms Returns B have "w' = w" and "calls = f c1 c2" by simp_all
    with Returns B b show ?thesis by (intro that [of c1 c2]) simp_all
  qed
qed

text \<open>The calls of one run of the handler, by the branches that made them.\<close>

lemma onMessage_try_calls:
  assumes "onMessage_try parse u tok st data = (Returns calls, u')"
  obtains v ty payload c1 c2 where "data = Returns v"
    and "property (Some v) ''type'' = Returns ty"
    and "property (Some v) ''payload'' = Returns payload"
    and "(if ty = Some (JStr ''REQUEST_INTERCEPTED_CONFIG'')
          then request_intercepted_config tok payload else Returns []) = Returns c1"
    and "(if ty = Some (JStr ''RAW_PARTIAL_RESPONSE'')
          then raw_partial_response parse u payload else (Returns [], u)) = (Returns c2, u')"
    and "calls = c1 @ c2 @
          (if ty = Some (JStr ''GPT3_FULL_CAPACITY'') \<and> st = Visible
           then [ReloadAndCheckCapacityAgain] else []) @
          (if ty = Some (JStr ''STREAM_ERROR'') then stream_error payload else [])"
proof -
  let ?head = "and_then data (\<lambda>v.
      and_then (property (Some v) ''payload'') (\<lambda>payload.
      and_then (property (Some v) ''type'') (\<lambda>type. Returns (payload, type))))"
  from assms obtain payload ty where pt: "?head = Returns (payload, ty)"
    by (cases ?head) (auto simp: onMessage_try_def)
  then obtain v where v: "data = Returns v"
    and p: "property (Some v) ''payload'' = Returns payload"
    and t: "property (Some v) ''type'' = Returns ty"
    by (auto simp: and_then_Returns)
  from assms pt have "(case (if ty = Some (JStr ''REQUEST_INTERCEPTED_CONFIG'')
          then request_intercepted_config tok payload else Returns []) of
        Throws \<Rightarrow> (Throws, u)
      | Returns c1 \<Rightarrow>
          (case (if ty = Some (JStr ''RAW_PARTIAL_RESPONSE'')
                 then raw_partial_response parse u payload else (Returns [], u)) of
             (Throws, u') \<Rightarrow> (Throws, u')
           | (Returns c2, u') \<Rightarrow>
               (Returns (c1 @ c2 @
                  (if ty = Some (JStr ''GPT3_FULL_CAPACITY'') \<and> st = Visible
                   then [ReloadAndCheckCapacityAgain] else []) @
                  (if ty = Some (JStr ''STREAM_ERROR'') then stream_error payload else [])),
                u'))) = (Returns calls, u')"
    unfolding onMessage_try_def by simp
  then obtain c1 c2 where "(if ty = Some (JStr ''REQUEST_INTERCEPTED_CONFIG'')
      then request_intercepted_config tok payload else Returns []) = Returns c1"
    and "(if ty = Some (JStr ''RAW_PARTIAL_RESPONSE'')
      then raw_partial_response parse u payload else (Returns [], u)) = (Returns c2, u')"
    and "calls = c1 @ c2 @
      (if ty = Some (JStr ''GPT3_FULL_CAPACITY'') \<and> st = Visible
       then [ReloadAndCheckCapacityAgain] else []) @
      (if ty = Some (JStr ''STREAM_ERROR'') then stream_error payload else [])"
    by (rule branches_return)
  with v t p show ?thesis by (intro that)
qed

lemma onMessage_calls:
  assumes "onMessage parse u tok st data = (Returns calls, u')"
  shows "calls = [] \<or> onMessage_try parse u tok st data = (Returns calls, u')"
  using assms
  by (auto simp: onMessage_def split: prod.splits completion.splits)

lemma onMessage_change:
  assumes "onMessage parse u tok st data = (Returns calls, u')"
    and "OnAccessTokenChange t \<in> set calls"
  shows "truthy (Some t) \<and> \<not> strict_eq t tok"
proof -
  from onMessage_calls [OF assms(1)] assms(2)
  have "onMessage_try parse u tok st data = (Returns calls, u')" by auto
  then obtain v ty payload c1 c2 where
    c1: "(if ty = Some (JStr ''REQUEST_INTERCEPTED_CONFIG'')
          then request_intercepted_config tok payload else Returns []) = Returns c1"
    and c2: "(if ty = Some (JStr ''RAW_PARTIAL_RESPONSE'')
          then raw_partial_response parse u payload else (Returns [], u)) = (Returns c2, u')"
    and calls: "calls = c1 @ c2 @
          (if ty = Some (JStr ''GPT3_FULL_CAPACITY'') \<and> st = Visible
           then [ReloadAndCheckCapacityAgain] else []) @
          (if ty = Some (JStr ''STREAM_ERROR'') then stream_error payload else [])"
    by (rule onMessage_try_calls)
  from c2 have "OnAccessTokenChange t \<notin> set c2"
    by (auto split: if_splits dest: raw_partial_response_calls)
  with assms(2) calls have "OnAccessTokenChange t \<in> set c1"
    by (auto simp: stream_error_def split: if_splits)
  with c1 show ?thesis
    by (auto split: if_splits dest: request_intercepted_config_change)
qed

lemma request_intercepted_config_no_error:
  assumes "request_intercepted_config tok payload = Returns calls"
  shows "OnStreamError e \<notin> set calls"
  using assms
  by (auto simp: request_intercepted_config_def and_then_Returns
      split: if_splits option.splits)

lemma onMessage_error_only_for_stream_error:
  assumes "onMessage parse u tok st (received m) = (Returns calls, u')"
    and "OnStreamError e \<in> set calls"
  shows "message_type m = Some (JStr ''STREAM_ERROR'')"
proof -
  from onMessage_calls [OF assms(1)] assms(2)
  have "onMessage_try parse u tok st (Returns m) = (Returns calls, u')"
    by (auto simp: received_def)
  then obtain v ty payload c1 c2 where v: "Returns m = Returns v"
    and ty: "property (Some v) ''type'' = Returns ty"
    and c1: "(if ty = Some (JStr ''REQUEST_INTERCEPTED_CONFIG'')
          then request_intercepted_config tok payload else Returns []) = Returns c1"
    and c2: "(if ty = Some (JStr ''RAW_PARTIAL_RESPONSE'')
          then raw_partial_response parse u payload else (Returns [], u)) = (Returns c2, u')"
    and calls: "calls = c1 @ c2 @
          (if ty = Some (JStr ''GPT3_FULL_CAPACITY'') \<and> st = Visible
           then [ReloadAndCheckCapacityAgain] else []) @
          (if ty = Some (JStr ''STREAM_ERROR'') then stream_error payload else [])"
    by (rule onMessage_try_calls)
  from c1 have "OnStreamError e \<notin> set c1"
    by (auto split: if_splits dest: request_intercepted_config_no_error)
  moreover from c2 have "OnStreamError e \<notin> set c2"
    by (auto split: if_splits dest: raw_partial_response_calls)
  ultimately have "ty = Some (JStr ''STREAM_ERROR'')"
    using assms(2) calls by (auto split: if_splits)
  with v ty show ?thesis
    by (cases m) (auto simp: message_type_def)
qed

lemma onMessage_no_object:
  assumes "\<forall>kvs. v \<noteq> JObj kvs"
  shows "onMessage parse u tok st (Returns v) = (Returns [], u)"
  using assms by (cases v) (simp_all add: onMessage_def onMessage_try_def)

lemma stream_error_no_object:
  assumes "\<forall>kvs. payload \<noteq> Some (JObj kvs)"
  shows "stream_error payload =
     [OnStreamError \<lparr> message = ''ChatGPTResponseStreamError: undefined'', statusCode = None \<rparr>]"
proof (cases payload)
  case None
  then show ?thesis by (simp add: stream_error_def)
next
  case (Some p)
  with assms show ?thesis by (cases p) (simp_all add: stream_error_def)
qed

section \<open>Lemmas on the retry cycles\<close>






section \<open>Lemmas on the state of the parser\<close>






section \<open>C1: a raw chunk goes to the accumulator\<close>



section \<open>C2: a stream error with status 403\<close>

text \<open>
  C2: a \<^verbatim>\<open>STREAM_ERROR\<close> message with payload \<^verbatim>\<open>{status: 403, statusText: ""}\<close> should
  surface an error whose message indicates credential expiry. The handler surfaces the
  message \<^verbatim>\<open>ChatGPTResponseStreamError: 403\<close>, where the non-streaming call gives, for the
  same status, the message that the access token may have expired.
\<close>

theorem stream_error_403_message:
  "onMessage parse u tok st
     (received (JObj [(''type'', JStr ''STREAM_ERROR''),
                      (''payload'', JObj [(''status'', JNum 403), (''statusText'', JStr [])])]))
     = (Returns [OnStreamError \<lparr> message = ''ChatGPTResponseStreamError: 403'',
                                  statusCode = Some (JNum 403) \<rparr>], u)
   \<and> postMessage parse' 403 [] rawText
     = Inl (Error \<lparr> message =
         ''ChatGPTResponseClientError: Your access token may have expired. Please login again.'',
         statusCode = Some (JNum 403) \<rparr>)"
proof -
  have "number_to_string 403 = ''403''"
    by (simp add: number_to_string_def decimal.simps digit_def)
  then show ?thesis
    by (simp add: onMessage_def onMessage_try_def received_def stream_error_def postMessage_def)
qed

section \<open>C3: an HTTP error status in the injected routine\<close>

text \<open>
  C3, as stated: for every response with status at least 400 the routine posts exactly
  one \<^verbatim>\<open>STREAM_ERROR\<close> message and no \<^verbatim>\<open>RAW_PARTIAL_RESPONSE\<close>. The guard of the routine is
  \<^verbatim>\<open>res.status >= 400 && res.status < 600\<close>: at status 600 the body is streamed and no
  \<^verbatim>\<open>STREAM_ERROR\<close> is posted.
\<close>

theorem status_600_is_streamed:
  "messages_of_type ''STREAM_ERROR''
     (sendGptMessage (\<lambda>body. ''{}'') ''https://host'' ''https://chat'' ''token'' ''hi'' ''m1'' ''c1''
        (Response 600 [] [''chunk''])) = []
   \<and> messages_of_type ''RAW_PARTIAL_RESPONSE''
     (sendGptMessage (\<lambda>body. ''{}'') ''https://host'' ''https://chat'' ''token'' ''hi'' ''m1'' ''c1''
        (Response 600 [] [''chunk''])) = [raw_partial_response_message ''chunk'']"
  by (simp add: messages_of_type_def sendGptMessage_def message_type_def
      intercepted_message_def raw_partial_response_message_def)

text \<open>
  C3, amended: for every response with status at least 400 and below 600, the routine
  posts exactly one \<^verbatim>\<open>STREAM_ERROR\<close> message, whose payload carries the status code (key
  \<^verbatim>\<open>status\<close>) and the status text (key \<^verbatim>\<open>message\<close>), and no \<^verbatim>\<open>RAW_PARTIAL_RESPONSE\<close>
  message.
\<close>

theorem sendGptMessage_error_status:
  assumes "400 \<le> st" and "st < 600"
  shows "messages_of_type ''STREAM_ERROR''
       (sendGptMessage stringify HOST_URL CHAT_PAGE token prompt messageId conversationId
          (Response st statusText chunks)) = [stream_error_message st statusText]
     \<and> optional_property (optional_property (Some (stream_error_message st statusText)) ''payload'')
         ''status'' = Some (JNum (int st))
     \<and> optional_property (optional_property (Some (stream_error_message st statusText)) ''payload'')
         ''message'' = Some (JStr statusText)
     \<and> messages_of_type ''RAW_PARTIAL_RESPONSE''
       (sendGptMessage stringify HOST_URL CHAT_PAGE token prompt messageId conversationId
          (Response st statusText chunks)) = []"
  using assms
  by (simp add: messages_of_type_def sendGptMessage_def message_type_def
      intercepted_message_def stream_error_message_def)

theorem sendGptMessage_error_status_witness:
  "messages_of_type ''STREAM_ERROR''
     (sendGptMessage (\<lambda>body. ''{}'') ''https://host'' ''https://chat'' ''token'' ''hi'' ''m1'' ''c1''
        (Response 403 ''Forbidden'' [''chunk''])) = [stream_error_message 403 ''Forbidden'']
   \<and> messages_of_type ''RAW_PARTIAL_RESPONSE''
     (sendGptMessage (\<lambda>body. ''{}'') ''https://host'' ''https://chat'' ''token'' ''hi'' ''m1'' ''c1''
        (Response 403 ''Forbidden'' [''chunk''])) = []"
  using sendGptMessage_error_status [of 403 "\<lambda>body. ''{}''" "''https://host''" "''https://chat''"
      "''token''" "''hi''" "''m1''" "''c1''" "''Forbidden''" "[''chunk'']"]
  by simp

section \<open>C4: parse failures\<close>

text \<open>
  C4, as stated: a malformed bridge message or stream record is always recovered locally,
  never surfaced, and no operation throws or invokes an error callback because of one.
  Two operations do. The router surfaces a malformed \<^verbatim>\<open>STREAM_ERROR\<close> message: with no
  payload at all, \<^verbatim>\<open>{"type":"STREAM_ERROR"}\<close>, it calls \<^verbatim>\<open>onStreamError\<close> with the message
  \<^verbatim>\<open>ChatGPTResponseStreamError: undefined\<close>. The non-streaming call throws: on a response of
  status 200 whose text ends mid-record, so that the parser returns \<^verbatim>\<open>null\<close>, \<open>postMessage\<close>
  throws the error \<^verbatim>\<open>ChatGPTResponseError: Unable to parse response\<close>.
\<close>

theorem parse_failure_is_surfaced:
  "onMessage (stream_engine line_format) new_accumulator (JStr []) Hidden
     (received (JObj [(''type'', JStr ''STREAM_ERROR'')]))
     = (Returns [OnStreamError \<lparr> message = ''ChatGPTResponseStreamError: undefined'',
                                  statusCode = None \<rparr>], new_accumulator)
   \<and> postMessage (whole_text line_format) 200 ''OK'' ''data: hel''
     = Inl (Error \<lparr> message = ''ChatGPTResponseError: Unable to parse response'',
                    statusCode = None \<rparr>)"
  by (simp add: onMessage_def onMessage_try_def received_def stream_error_def
      postMessage_def whole_text_def line_format_def)

text \<open>
  C4, amended: for every raw input the handler of the bridge message router returns
  normally, without propagating an exception. A message that is no JSON, or whose JSON
  value is no object, calls nothing, and a \<^verbatim>\<open>RAW_PARTIAL_RESPONSE\<close> chunk on which the parser
  throws or returns \<^verbatim>\<open>null\<close> calls nothing. The error callback is called for the messages of
  type \<^verbatim>\<open>STREAM_ERROR\<close> and for no other, and for these also when the payload is malformed:
  with a payload that is missing or no object, the error surfaced has the message
  \<^verbatim>\<open>ChatGPTResponseStreamError: undefined\<close> and no status code. In the non-streaming call a
  parse failure is surfaced: on a response with status below 400 for whose text the parser
  returns \<^verbatim>\<open>null\<close>, \<open>postMessage\<close> throws the error
  \<^verbatim>\<open>ChatGPTResponseError: Unable to parse response\<close>.
\<close>

theorem parse_failure_recovery:
  "(\<exists>calls u'. onMessage parse u tok st data = (Returns calls, u'))
   \<and> onMessage parse u tok st Throws = (Returns [], u)
   \<and> ((\<forall>kvs. v \<noteq> JObj kvs) \<longrightarrow> onMessage parse u tok st (Returns v) = (Returns [], u))
   \<and> (message_type m = Some (JStr ''RAW_PARTIAL_RESPONSE'')
        \<and> (fst (parse u (optional_property (Some m) ''payload'')) = Throws
             \<or> fst (parse u (optional_property (Some m) ''payload'')) = Returns None)
       \<longrightarrow> fst (onMessage parse u tok st (received m)) = Returns [])
   \<and> (fst (onMessage parse u tok st (received m)) = Returns calls'
        \<and> OnStreamError e \<in> set calls'
       \<longrightarrow> message_type m = Some (JStr ''STREAM_ERROR''))
   \<and> (message_type m = Some (JStr ''STREAM_ERROR'')
       \<longrightarrow> onMessage parse u tok st (received m)
           = (Returns (stream_error (optional_property (Some m) ''payload'')), u))
   \<and> ((\<forall>kvs. payload \<noteq> Some (JObj kvs))
       \<longrightarrow> stream_error payload
           = [OnStreamError \<lparr> message = ''ChatGPTResponseStreamError: undefined'',
                               statusCode = None \<rparr>])
   \<and> (n < 400 \<and> parse' rawText = Returns None
       \<longrightarrow> postMessage parse' n statusText rawText
           = Inl (Error \<lparr> message = ''ChatGPTResponseError: Unable to parse response'',
                          statusCode = None \<rparr>))"
proof (intro conjI impI)
  show "\<exists>calls u'. onMessage parse u tok st data = (Returns calls, u')"
    by (rule onMessage_returns)
  show "onMessage parse u tok st Throws = (Returns [], u)"
    by (simp add: onMessage_def onMessage_try_def)
next
  assume "\<forall>kvs. v \<noteq> JObj kvs"
  then show "onMessage parse u tok st (Returns v) = (Returns [], u)"
    by (rule onMessage_no_object)
next
  assume a: "message_type m = Some (JStr ''RAW_PARTIAL_RESPONSE'')
      \<and> (fst (parse u (optional_property (Some m) ''payload'')) = Throws
           \<or> fst (parse u (optional_property (Some m) ''payload'')) = Returns None)"
  then have "message_type m = Some (JStr ''RAW_PARTIAL_RESPONSE'')" by simp
  from onMessage_raw [OF this, of parse u tok st] a
  show "fst (onMessage parse u tok st (received m)) = Returns []"
    by (cases "parse u (optional_property (Some m) ''payload'')") auto
next
  assume a: "fst (onMessage parse u tok st (received m)) = Returns calls'
      \<and> OnStreamError e \<in> set calls'"
  then obtain u' where "onMessage parse u tok st (received m) = (Returns calls', u')"
    by (cases "onMessage parse u tok st (received m)") simp
  with a show "message_type m = Some (JStr ''STREAM_ERROR'')"
    by (auto dest: onMessage_error_only_for_stream_error)
next
  assume "message_type m = Some (JStr ''STREAM_ERROR'')"
  then show "onMessage parse u tok st (received m)
      = (Returns (stream_error (optional_property (Some m) ''payload'')), u)"
    by (rule onMessage_stream_error)
next
  assume "\<forall>kvs. payload \<noteq> Some (JObj kvs)"
  then show "stream_error payload
      = [OnStreamError \<lparr> message = ''ChatGPTResponseStreamError: undefined'',
                          statusCode = None \<rparr>]"
    by (rule stream_error_no_object)
next
  assume "n < 400 \<and> parse' rawText = Returns None"
  then show "postMessage parse' n statusText rawText
      = Inl (Error \<lparr> message = ''ChatGPTResponseError: Unable to parse response'',
                     statusCode = None \<rparr>)"
    by (simp add: postMessage_def)
qed

theorem parse_failure_recovery_witness:
  "onMessage (stream_engine line_format) new_accumulator (JStr []) Hidden (Returns (JStr ''ping''))
     = (Returns [], new_accumulator)
   \<and> fst (onMessage (stream_engine line_format) new_accumulator (JStr []) Hidden
       (received (raw_partial_response_message ''data: hel''))) = Returns []
   \<and> fst (onMessage (stream_engine line_format) new_accumulator (JStr []) Hidden
       (received (JObj [(''type'', JStr ''RAW_PARTIAL_RESPONSE''), (''payload'', JNum 1)])))
     = Returns []
   \<and> onMessage (stream_engine line_format) new_accumulator (JStr []) Hidden
       (received (JObj [(''type'', JStr ''STREAM_ERROR''), (''payload'', JStr ''failed'')]))
     = (Returns [OnStreamError \<lparr> message = ''ChatGPTResponseStreamError: undefined'',
                                  statusCode = None \<rparr>], new_accumulator)
   \<and> postMessage (whole_text line_format) 200 ''OK'' ''data: hel''
     = Inl (Error \<lparr> message = ''ChatGPTResponseError: Unable to parse response'',
                    statusCode = None \<rparr>)"
proof -
  note a = parse_failure_recovery
    [where parse = "stream_engine line_format" and u = new_accumulator and tok = "JStr []"
      and st = Hidden and data = Throws and v = "JStr ''ping''"
      and m = "raw_partial_response_message ''data: hel''"
      and payload = "Some (JStr ''failed'')" and n = 200 and parse' = "whole_text line_format"
      and rawText = "''data: hel''" and statusText = "''OK''" and calls' = "[]"
      and e = "\<lparr> message = [], statusCode = None \<rparr>"]
  note b = parse_failure_recovery
    [where parse = "stream_engine line_format" and u = new_accumulator and tok = "JStr []"
      and st = Hidden and data = Throws and v = "JStr ''ping''"
      and m = "JObj [(''type'', JStr ''RAW_PARTIAL_RESPONSE''), (''payload'', JNum 1)]"
      and payload = "Some (JStr ''failed'')" and n = 200 and parse' = "whole_text line_format"
      and rawText = "''data: hel''" and statusText = "''OK''" and calls' = "[]"
      and e = "\<lparr> message = [], statusCode = None \<rparr>"]
  note c = parse_failure_recovery
    [where parse = "stream_engine line_format" and u = new_accumulator and tok = "JStr []"
      and st = Hidden and data = Throws and v = "JStr ''ping''"
      and m = "JObj [(''type'', JStr ''STREAM_ERROR''), (''payload'', JStr ''failed'')]"
      and payload = "Some (JStr ''failed'')" and n = 200 and parse' = "whole_text line_format"
      and rawText = "''data: hel''" and statusText = "''OK''" and calls' = "[]"
      and e = "\<lparr> message = [], statusCode = None \<rparr>"]
  have 1: "onMessage (stream_engine line_format) new_accumulator (JStr []) Hidden
      (Returns (JStr ''ping'')) = (Returns [], new_accumulator)"
    using a [THEN conjunct2, THEN conjunct2, THEN conjunct1] by simp
  have 2: "fst (onMessage (stream_engine line_format) new_accumulator (JStr []) Hidden
      (received (raw_partial_response_message ''data: hel''))) = Returns []"
    using a [THEN conjunct2, THEN conjunct2, THEN conjunct2, THEN conjunct1]
    by (simp add: message_type_def raw_partial_response_message_def stream_engine_def
        ingest_def new_accumulator_def line_format_def)
  have 3: "fst (onMessage (stream_engine line_format) new_accumulator (JStr []) Hidden
      (received (JObj [(''type'', JStr ''RAW_PARTIAL_RESPONSE''), (''payload'', JNum 1)])))
      = Returns []"
    using b [THEN conjunct2, THEN conjunct2, THEN conjunct2, THEN conjunct1]
    by (simp add: message_type_def stream_engine_def)
  note c' = c [THEN conjunct2, THEN conjunct2, THEN conjunct2, THEN conjunct2, THEN conjunct2]
  have "onMessage (stream_engine line_format) new_accumulator (JStr []) Hidden
      (received (JObj [(''type'', JStr ''STREAM_ERROR''), (''payload'', JStr ''failed'')]))
      = (Returns (stream_error (Some (JStr ''failed''))), new_accumulator)"
    using c' [THEN conjunct1] by (simp add: message_type_def)
  moreover have "stream_error (Some (JStr ''failed''))
      = [OnStreamError \<lparr> message = ''ChatGPTResponseStreamError: undefined'',
                          statusCode = None \<rparr>]"
    using c' [THEN conjunct2, THEN conjunct1] by simp
  ultimately have 4: "onMessage (stream_engine line_format) new_accumulator (JStr []) Hidden
      (received (JObj [(''type'', JStr ''STREAM_ERROR''), (''payload'', JStr ''failed'')]))
      = (Returns [OnStreamError \<lparr> message = ''ChatGPTResponseStreamError: undefined'',
                                   statusCode = None \<rparr>], new_accumulator)"
    by simp
  have 5: "postMessage (whole_text line_format) 200 ''OK'' ''data: hel''
      = Inl (Error \<lparr> message = ''ChatGPTResponseError: Unable to parse response'',
                     statusCode = None \<rparr>)"
    using c' [THEN conjunct2, THEN conjunct2] by (simp add: whole_text_def line_format_def)
  from 1 2 3 4 5 show ?thesis by (intro conjI)
qed

section \<open>C5: the token-change callback\<close>

text \<open>
  C5, as stated: for token A, token A again, token B, with A not held at the start, the
  callback is invoked exactly once. It is invoked twice: on the first A, which differs
  from the held token, and on B.
\<close>

theorem token_callback_fires_twice:
  "token_changes (trace (run (stream_engine line_format) ''https://chat''
      (mounted (JStr []) new_accumulator)
      [Message (received (intercepted_message
         (Some (JObj [(''headers'', JObj [(''Authorization'', JStr ''A'')])])))),
       Message (received (intercepted_message
         (Some (JObj [(''headers'', JObj [(''Authorization'', JStr ''A'')])])))),
       Message (received (intercepted_message
         (Some (JObj [(''headers'', JObj [(''Authorization'', JStr ''B'')])]))))]))
     = [JStr ''A'', JStr ''B'']"
  by (simp add: run_def mounted_def router_defs intercepted_message_def does_def
      token_changes_def)

text \<open>
  C5, amended: for the sequence token A, token A again, token B (A and B non-empty and
  different, A not held at the start) the callback is invoked exactly twice, with A on the
  first observation and with B on the A-to-B transition, and not on the repeated A. In
  general the callback fires only when the observed authorization value is truthy and
  differs from the held token.
\<close>

theorem token_callback_on_change_only:
  "(message_type m1 = Some (JStr ''REQUEST_INTERCEPTED_CONFIG'')
    \<and> message_type m2 = Some (JStr ''REQUEST_INTERCEPTED_CONFIG'')
    \<and> message_type m3 = Some (JStr ''REQUEST_INTERCEPTED_CONFIG'')
    \<and> authorization m1 = Some (JStr A) \<and> authorization m2 = Some (JStr A)
    \<and> authorization m3 = Some (JStr B)
    \<and> A \<noteq> [] \<and> B \<noteq> [] \<and> A \<noteq> B \<and> accessToken s \<noteq> JStr A
    \<longrightarrow> token_changes (trace (run parse CHAT_PAGE s
          [Message (received m1), Message (received m2), Message (received m3)]))
        = token_changes (trace s) @ [JStr A, JStr B])
   \<and> (onMessage parse u tok st data = (Returns calls, u') \<and> OnAccessTokenChange t \<in> set calls
      \<longrightarrow> truthy (Some t) \<and> \<not> strict_eq t tok)"
proof (intro conjI impI)
  assume a: "message_type m1 = Some (JStr ''REQUEST_INTERCEPTED_CONFIG'')
    \<and> message_type m2 = Some (JStr ''REQUEST_INTERCEPTED_CONFIG'')
    \<and> message_type m3 = Some (JStr ''REQUEST_INTERCEPTED_CONFIG'')
    \<and> authorization m1 = Some (JStr A) \<and> authorization m2 = Some (JStr A)
    \<and> authorization m3 = Some (JStr B)
    \<and> A \<noteq> [] \<and> B \<noteq> [] \<and> A \<noteq> B \<and> accessToken s \<noteq> JStr A"
  define s1 where "s1 = step parse CHAT_PAGE s (Message (received m1))"
  define s2 where "s2 = step parse CHAT_PAGE s1 (Message (received m2))"
  define s3 where "s3 = step parse CHAT_PAGE s2 (Message (received m3))"
  have 1: "s1 = (does (Calls (OnAccessTokenChange (JStr A))) s)\<lparr>accessToken := JStr A\<rparr>"
    unfolding s1_def using a step_intercepted_token [of m1 A parse CHAT_PAGE s] by simp
  have 2: "s2 = s1"
    unfolding s2_def using a 1 step_intercepted_token [of m2 A parse CHAT_PAGE s1] by simp
  have 3: "s3 = (does (Calls (OnAccessTokenChange (JStr B))) s2)\<lparr>accessToken := JStr B\<rparr>"
    unfolding s3_def using a 1 2 step_intercepted_token [of m3 B parse CHAT_PAGE s2] by auto
  have "run parse CHAT_PAGE s
      [Message (received m1), Message (received m2), Message (received m3)] = s3"
    by (simp add: run_Cons run_Nil s1_def s2_def s3_def del: step.simps)
  then show "token_changes (trace (run parse CHAT_PAGE s
      [Message (received m1), Message (received m2), Message (received m3)]))
    = token_changes (trace s) @ [JStr A, JStr B]"
    by (simp add: 1 2 3 does_def token_changes_def)
next
  assume "onMessage parse u tok st data = (Returns calls, u') \<and> OnAccessTokenChange t \<in> set calls"
  then show "truthy (Some t)" and "\<not> strict_eq t tok"
    using onMessage_change [of parse u tok st data calls u' t] by simp_all
qed

theorem token_callback_on_change_only_witness:
  "token_changes (trace (run (stream_engine line_format) ''https://chat''
      (mounted (JStr []) new_accumulator)
      [Message (received (intercepted_message
         (Some (JObj [(''headers'', JObj [(''Authorization'', JStr ''A'')])])))),
       Message (received (intercepted_message
         (Some (JObj [(''headers'', JObj [(''Authorization'', JStr ''A'')])])))),
       Message (received (intercepted_message
         (Some (JObj [(''headers'', JObj [(''Authorization'', JStr ''B'')])]))))]))
     = token_changes (trace (mounted (JStr []) new_accumulator
                              :: (StreamAccumulator, ChatResponse) modal))
       @ [JStr ''A'', JStr ''B'']
   \<and> truthy (Some (JStr ''A'')) \<and> \<not> strict_eq (JStr ''A'') (JStr [])"
proof -
  note r = token_callback_on_change_only
    [where ?m1.0 = "intercepted_message
          (Some (JObj [(''headers'', JObj [(''Authorization'', JStr ''A'')])]))"
      and ?m2.0 = "intercepted_message
          (Some (JObj [(''headers'', JObj [(''Authorization'', JStr ''A'')])]))"
      and ?m3.0 = "intercepted_message
          (Some (JObj [(''headers'', JObj [(''Authorization'', JStr ''B'')])]))"
      and A = "''A''" and B = "''B''"
      and s = "mounted (JStr []) new_accumulator :: (StreamAccumulator, ChatResponse) modal"
      and parse = "stream_engine line_format" and CHAT_PAGE = "''https://chat''"
      and u = new_accumulator and u' = new_accumulator
      and tok = "JStr []" and st = Hidden
      and data = "received (intercepted_message
          (Some (JObj [(''headers'', JObj [(''Authorization'', JStr ''A'')])])))"
      and calls = "[OnAccessTokenChange (JStr ''A'')]" and t = "JStr ''A''"]
  have 1: "token_changes (trace (run (stream_engine line_format) ''https://chat''
      (mounted (JStr []) new_accumulator)
      [Message (received (intercepted_message
         (Some (JObj [(''headers'', JObj [(''Authorization'', JStr ''A'')])])))),
       Message (received (intercepted_message
         (Some (JObj [(''headers'', JObj [(''Authorization'', JStr ''A'')])])))),
       Message (received (intercepted_message
         (Some (JObj [(''headers'', JObj [(''Authorization'', JStr ''B'')])]))))]))
     = token_changes (trace (mounted (JStr []) new_accumulator
                              :: (StreamAccumulator, ChatResponse) modal))
       @ [JStr ''A'', JStr ''B'']"
    using r [THEN conjunct1]
    by (simp add: message_type_def authorization_def intercepted_message_def mounted_def
        del: step.simps)
  have 2: "truthy (Some (JStr ''A'')) \<and> \<not> strict_eq (JStr ''A'') (JStr [])"
    using r [THEN conjunct2]
    by (simp add: router_defs intercepted_message_def)
  from 1 2 show ?thesis by (intro conjI) simp_all
qed

section \<open>C6: opening the modal\<close>




section \<open>C7: the capacity retry and the visibility\<close>




section \<open>C8: client errors of the non-streaming call\<close>

text \<open>
  C8: for a response of status 401 or 403, \<open>postMessage\<close> throws an error whose message
  says that the access token may have expired and asks to log in again, and whose
  \<open>statusCode\<close> is the status; for every other status from 400 to 499 it throws a client
  error whose message carries the status and the status text.
\<close>

theorem postMessage_client_error:
  "(n = 401 \<or> n = 403
    \<longrightarrow> postMessage parse n statusText rawText
        = Inl (Error \<lparr> message =
            ''ChatGPTResponseClientError: Your access token may have expired. Please login again.'',
            statusCode = Some (JNum (int n)) \<rparr>))
   \<and> (400 \<le> n \<and> n < 500 \<and> n \<noteq> 401 \<and> n \<noteq> 403
      \<longrightarrow> postMessage parse n statusText rawText
          = Inl (Error \<lparr> message =
              ''ChatGPTResponseClientError: '' @ decimal n @ '' '' @ statusText,
              statusCode = Some (JNum (int n)) \<rparr>))"
  by (auto simp: postMessage_def)

theorem postMessage_client_error_witness:
  "postMessage (whole_text line_format) 401 ''Unauthorized'' []
     = Inl (Error \<lparr> message =
         ''ChatGPTResponseClientError: Your access token may have expired. Please login again.'',
         statusCode = Some (JNum 401) \<rparr>)
   \<and> postMessage (whole_text line_format) 404 ''Not Found'' []
     = Inl (Error \<lparr> message = ''ChatGPTResponseClientError: 404 Not Found'',
                    statusCode = Some (JNum 404) \<rparr>)"
  using postMessage_client_error [of 401 "whole_text line_format" "''Unauthorized''" "[]"]
    postMessage_client_error [of 404 "whole_text line_format" "''Not Found''" "[]"]
  by (simp add: decimal.simps digit_def)

section \<open>C9: the stream error of the injected routine, as the router surfaces it\<close>

text \<open>
  C9: for every \<^verbatim>\<open>STREAM_ERROR\<close> message that the injected routine posts, the router
  surfaces the error with message \<^verbatim>\<open>ChatGPTResponseStreamError: <status>\<close> and the status
  as \<open>statusCode\<close>: the routine stores the status text under the key \<^verbatim>\<open>message\<close>, the
  router reads the key \<^verbatim>\<open>statusText\<close>, so the surfaced error is the same for every status
  text of the backend.
\<close>

theorem stream_error_of_sendGptMessage:
  "\<forall>m \<in> set (sendGptMessage stringify HOST_URL CHAT_PAGE token prompt messageId conversationId
             (Response n statusText chunks)).
     message_type m = Some (JStr ''STREAM_ERROR'')
     \<longrightarrow> onMessage parse u tok st (received m)
         = (Returns [OnStreamError
              \<lparr> message = ''ChatGPTResponseStreamError: '' @ decimal n,
                statusCode = Some (JNum (int n)) \<rparr>], u)"
proof (intro ballI impI)
  fix m
  assume m: "m \<in> set (sendGptMessage stringify HOST_URL CHAT_PAGE token prompt messageId
      conversationId (Response n statusText chunks))"
    and ty: "message_type m = Some (JStr ''STREAM_ERROR'')"
  from m ty have "m = stream_error_message n statusText"
    by (auto simp: sendGptMessage_def message_type_def intercepted_message_def
        raw_partial_response_message_def split: if_splits)
  then show "onMessage parse u tok st (received m)
      = (Returns [OnStreamError
           \<lparr> message = ''ChatGPTResponseStreamError: '' @ decimal n,
             statusCode = Some (JNum (int n)) \<rparr>], u)"
    by (simp add: onMessage_stream_error_message)
qed

theorem stream_error_of_sendGptMessage_witness:
  "stream_error_message 500 ''Internal Server Error''
     \<in> set (sendGptMessage (\<lambda>body. ''{}'') ''https://host'' ''https://chat'' ''token'' ''hi''
         ''m1'' ''c1'' (Response 500 ''Internal Server Error'' [''chunk'']))
   \<and> onMessage (stream_engine line_format) new_accumulator (JStr ''token'') Hidden
       (received (stream_error_message 500 ''Internal Server Error''))
     = (Returns [OnStreamError \<lparr> message = ''ChatGPTResponseStreamError: 500'',
                                  statusCode = Some (JNum 500) \<rparr>], new_accumulator)"
proof -
  have 1: "stream_error_message 500 ''Internal Server Error''
      \<in> set (sendGptMessage (\<lambda>body. ''{}'') ''https://host'' ''https://chat'' ''token'' ''hi''
          ''m1'' ''c1'' (Response 500 ''Internal Server Error'' [''chunk'']))"
    by (simp add: sendGptMessage_def)
  have 2: "message_type (stream_error_message 500 ''Internal Server Error'')
      = Some (JStr ''STREAM_ERROR'')"
    by (simp add: message_type_def stream_error_message_def)
  have 3: "decimal 500 = ''500''"
    by (simp add: decimal.simps digit_def)
  from stream_error_of_sendGptMessage [where parse = "stream_engine line_format"
      and u = new_accumulator and tok = "JStr ''token''" and st = Hidden, THEN bspec, OF 1] 2 3 1
  show ?thesis by simp
qed

section \<open>C10: the lowercase authorization header\<close>

text \<open>
  C10: for every intercepted request whose headers carry the token under the key
  \<^verbatim>\<open>authorization\<close> and have no key \<^verbatim>\<open>Authorization\<close>, the handler calls nothing and the
  state, with the held token, is unchanged; the messages of one run of the injected
  \<^verbatim>\<open>sendGptMessage\<close>, whose own request is such a one, leave the held token unchanged and
  invoke no token-change callback.
\<close>

theorem lowercase_authorization_not_captured:
  "(message_type m = Some (JStr ''REQUEST_INTERCEPTED_CONFIG'')
    \<and> request_headers m = Some (JObj hs)
    \<and> map_of hs ''authorization'' = Some bearer \<and> map_of hs ''Authorization'' = None
    \<longrightarrow> step parse CHAT_PAGE' s (Message (received m)) = s)
   \<and> accessToken (run parse CHAT_PAGE' s (deliver
       (sendGptMessage stringify HOST_URL CHAT_PAGE token prompt messageId conversationId res)))
     = accessToken s
   \<and> token_changes (trace (run parse CHAT_PAGE' s (deliver
       (sendGptMessage stringify HOST_URL CHAT_PAGE token prompt messageId conversationId res))))
     = token_changes (trace s)"
proof (intro conjI impI)
  assume a: "message_type m = Some (JStr ''REQUEST_INTERCEPTED_CONFIG'')
    \<and> request_headers m = Some (JObj hs)
    \<and> map_of hs ''authorization'' = Some bearer \<and> map_of hs ''Authorization'' = None"
  then have "onMessage parse (parser_state s) (accessToken s) (status s) (received m)
      = (Returns [], parser_state s)"
    using onMessage_intercepted [of m hs parse "parser_state s" "accessToken s" "status s"]
    by simp
  then show "step parse CHAT_PAGE' s (Message (received m)) = s"
    by simp
next
  let ?ms = "sendGptMessage stringify HOST_URL CHAT_PAGE token prompt messageId conversationId res"
  have "accessToken (run parse CHAT_PAGE' s (deliver ?ms)) = accessToken s
      \<and> token_changes (trace (run parse CHAT_PAGE' s (deliver ?ms))) = token_changes (trace s)"
  proof (cases res)
    case Rejected
    then show ?thesis
      by (simp add: sendGptMessage_def deliver_Cons deliver_Nil run_Cons run_Nil
          step_sendGptMessage_request del: step.simps)
  next
    case (Response n statusText chunks)
    show ?thesis
    proof (cases "400 \<le> n \<and> n < 600")
      case True
      with Response step_stream_error_keeps_token [of parse CHAT_PAGE' s n statusText]
      show ?thesis
        by (simp add: sendGptMessage_def deliver_Cons deliver_Nil run_Cons run_Nil
            step_sendGptMessage_request del: step.simps)
    next
      case False
      with Response run_raw_keeps_token [of parse CHAT_PAGE' s chunks]
      show ?thesis
        by (auto simp add: sendGptMessage_def deliver_Cons run_Cons
            step_sendGptMessage_request simp del: step.simps)
    qed
  qed
  then show "accessToken (run parse CHAT_PAGE' s (deliver ?ms)) = accessToken s"
    and "token_changes (trace (run parse CHAT_PAGE' s (deliver ?ms))) = token_changes (trace s)"
    by simp_all
qed

theorem lowercase_authorization_not_captured_witness:
  "step (stream_engine line_format) ''https://chat'' (mounted (JStr []) new_accumulator)
     (Message (received (intercepted_message
        (Some (JObj [(''headers'', JObj [(''authorization'', JStr ''Bearer abc'')])])))))
     = mounted (JStr []) new_accumulator
   \<and> accessToken (run (stream_engine line_format) ''https://chat''
       (mounted (JStr []) new_accumulator) (deliver
       (sendGptMessage (\<lambda>body. ''{}'') ''https://host'' ''https://chat'' ''Bearer abc'' ''hi''
          ''m1'' ''c1'' (Response 200 ''OK'' [''chunk''])))) = JStr []"
proof -
  note r = lowercase_authorization_not_captured
    [where m = "intercepted_message
          (Some (JObj [(''headers'', JObj [(''authorization'', JStr ''Bearer abc'')])]))"
      and hs = "[(''authorization'', JStr ''Bearer abc'')]" and bearer = "JStr ''Bearer abc''"
      and parse = "stream_engine line_format" and CHAT_PAGE' = "''https://chat''"
      and s = "mounted (JStr []) new_accumulator"
      and stringify = "\<lambda>body. ''{}''" and HOST_URL = "''https://host''"
      and CHAT_PAGE = "''https://chat''" and token = "''Bearer abc''" and prompt = "''hi''"
      and messageId = "''m1''" and conversationId = "''c1''"
      and res = "Response 200 ''OK'' [''chunk'']"]
  have 1: "step (stream_engine line_format) ''https://chat'' (mounted (JStr []) new_accumulator)
      (Message (received (intercepted_message
         (Some (JObj [(''headers'', JObj [(''authorization'', JStr ''Bearer abc'')])])))))
      = mounted (JStr []) new_accumulator"
    using r [THEN conjunct1]
    by (simp add: message_type_def request_headers_def intercepted_message_def del: step.simps)
  have 2: "accessToken (run (stream_engine line_format) ''https://chat''
      (mounted (JStr []) new_accumulator) (deliver
      (sendGptMessage (\<lambda>body. ''{}'') ''https://host'' ''https://chat'' ''Bearer abc'' ''hi''
         ''m1'' ''c1'' (Response 200 ''OK'' [''chunk''])))) = JStr []"
    using r [THEN conjunct2, THEN conjunct1]
    by (simp add: mounted_def)
  from 1 2 show ?thesis by (intro conjI)
qed


end
